theory Spec2Isabelle
  imports Complex_Main
begin

section \<open>The float type of the plugin\<close>

text \<open>
  The C++ type \<^verbatim>\<open>float\<close> is the IEEE 754 binary32 format: a finite value (a real number
  with 24 significant bits and an exponent in the format's range), one of the two infinities,
  or a NaN. Every arithmetic operation gives the exact result rounded to the nearest value of
  the format, ties to the even significand, and an infinity when the rounded result is out of
  range. The model keeps one zero and one NaN: the sign of a zero and the payload of a NaN are
  dropped, and a zero divisor counts as the positive zero (which is what
  \<^verbatim>\<open>actual_maximum - actual_minimum\<close> is when the two bounds are the same number). Each
  operation is rounded on its own to binary32 (no wider intermediate format and no fused
  multiply-add), in the default rounding mode and with gradual underflow.
\<close>

datatype cfloat = Finite real | PlusInf | MinusInf | NaN

text \<open>The number of binary digits of a natural number.\<close>

fun bit_length :: "nat \<Rightarrow> nat" where
  "bit_length n = (if n = 0 then 0 else Suc (bit_length (n div 2)))"

text \<open>The nearest integer, a tie going to the even one.\<close>

definition round_ties_even :: "real \<Rightarrow> int" where
  "round_ties_even q =
     (let n = \<lfloor>q\<rfloor>; r = q - of_int n
      in if r < 1 / 2 then n else if 1 / 2 < r then n + 1 else if even n then n else n + 1)"

text \<open>
  Rounding is done on the value counted in units of \<^verbatim>\<open>2^-149\<close>, the least positive
  binary32 number. A scaled value of at most 24 binary digits keeps the unit spacing (the
  subnormal numbers and the first binade); each further digit doubles the spacing.
\<close>

definition grid_shift :: "real \<Rightarrow> nat" where
  "grid_shift X = bit_length (nat \<lfloor>\<bar>X\<bar>\<rfloor>) - 24"

definition round_to_grid :: "real \<Rightarrow> int" where
  "round_to_grid X = round_ties_even (X / 2 ^ grid_shift X) * 2 ^ grid_shift X"

text \<open>
  The largest finite binary32 number is \<^verbatim>\<open>(2^24 - 1) * 2^104\<close>; a rounded result of size
  \<^verbatim>\<open>2^128\<close> (scaled: \<^verbatim>\<open>2^277\<close>) or more is an infinity.
\<close>

definition binary32_of_scaled :: "int \<Rightarrow> cfloat" where
  "binary32_of_scaled n =
     (if 2 ^ 277 \<le> n then PlusInf
      else if n \<le> - (2 ^ 277) then MinusInf
      else Finite (of_int n / 2 ^ 149))"

definition round32 :: "real \<Rightarrow> cfloat" where
  "round32 x = binary32_of_scaled (round_to_grid (x * 2 ^ 149))"

text \<open>A real number is a binary32 number when rounding leaves it as it is.\<close>

definition exact32 :: "real \<Rightarrow> bool" where
  "exact32 x = (round32 x = Finite x)"

definition fneg :: "cfloat \<Rightarrow> cfloat" where
  "fneg a =
     (case a of Finite x \<Rightarrow> Finite (- x) | PlusInf \<Rightarrow> MinusInf | MinusInf \<Rightarrow> PlusInf
      | NaN \<Rightarrow> NaN)"

definition fadd :: "cfloat \<Rightarrow> cfloat \<Rightarrow> cfloat" where
  "fadd a b =
     (case a of
        NaN \<Rightarrow> NaN
      | PlusInf \<Rightarrow> (case b of NaN \<Rightarrow> NaN | MinusInf \<Rightarrow> NaN | PlusInf \<Rightarrow> PlusInf
                    | Finite y \<Rightarrow> PlusInf)
      | MinusInf \<Rightarrow> (case b of NaN \<Rightarrow> NaN | PlusInf \<Rightarrow> NaN | MinusInf \<Rightarrow> MinusInf
                     | Finite y \<Rightarrow> MinusInf)
      | Finite x \<Rightarrow> (case b of NaN \<Rightarrow> NaN | PlusInf \<Rightarrow> PlusInf | MinusInf \<Rightarrow> MinusInf
                     | Finite y \<Rightarrow> round32 (x + y)))"

definition fsub :: "cfloat \<Rightarrow> cfloat \<Rightarrow> cfloat" where
  "fsub a b = fadd a (fneg b)"

definition fmul :: "cfloat \<Rightarrow> cfloat \<Rightarrow> cfloat" where
  "fmul a b =
     (case a of
        NaN \<Rightarrow> NaN
      | PlusInf \<Rightarrow> (case b of NaN \<Rightarrow> NaN | PlusInf \<Rightarrow> PlusInf | MinusInf \<Rightarrow> MinusInf
                    | Finite y \<Rightarrow> if y = 0 then NaN else if 0 < y then PlusInf else MinusInf)
      | MinusInf \<Rightarrow> (case b of NaN \<Rightarrow> NaN | PlusInf \<Rightarrow> MinusInf | MinusInf \<Rightarrow> PlusInf
                     | Finite y \<Rightarrow> if y = 0 then NaN else if 0 < y then MinusInf else PlusInf)
      | Finite x \<Rightarrow> (case b of
                       NaN \<Rightarrow> NaN
                     | PlusInf \<Rightarrow> if x = 0 then NaN else if 0 < x then PlusInf else MinusInf
                     | MinusInf \<Rightarrow> if x = 0 then NaN else if 0 < x then MinusInf else PlusInf
                     | Finite y \<Rightarrow> round32 (x * y)))"

definition fdiv :: "cfloat \<Rightarrow> cfloat \<Rightarrow> cfloat" where
  "fdiv a b =
     (case a of
        NaN \<Rightarrow> NaN
      | PlusInf \<Rightarrow> (case b of NaN \<Rightarrow> NaN | PlusInf \<Rightarrow> NaN | MinusInf \<Rightarrow> NaN
                    | Finite y \<Rightarrow> if y < 0 then MinusInf else PlusInf)
      | MinusInf \<Rightarrow> (case b of NaN \<Rightarrow> NaN | PlusInf \<Rightarrow> NaN | MinusInf \<Rightarrow> NaN
                     | Finite y \<Rightarrow> if y < 0 then PlusInf else MinusInf)
      | Finite x \<Rightarrow> (case b of
                       NaN \<Rightarrow> NaN
                     | PlusInf \<Rightarrow> Finite 0
                     | MinusInf \<Rightarrow> Finite 0
                     | Finite y \<Rightarrow>
                         if y = 0
                         then (if x = 0 then NaN else if 0 < x then PlusInf else MinusInf)
                         else round32 (x / y)))"

text \<open>The comparisons \<^verbatim>\<open><\<close> and \<^verbatim>\<open><=\<close> of two floats: false when either is a NaN.\<close>

definition flt :: "cfloat \<Rightarrow> cfloat \<Rightarrow> bool" where
  "flt a b =
     (case a of
        NaN \<Rightarrow> False
      | PlusInf \<Rightarrow> False
      | MinusInf \<Rightarrow> (case b of NaN \<Rightarrow> False | MinusInf \<Rightarrow> False | PlusInf \<Rightarrow> True
                     | Finite y \<Rightarrow> True)
      | Finite x \<Rightarrow> (case b of NaN \<Rightarrow> False | MinusInf \<Rightarrow> False | PlusInf \<Rightarrow> True
                     | Finite y \<Rightarrow> x < y))"

definition fle :: "cfloat \<Rightarrow> cfloat \<Rightarrow> bool" where
  "fle a b =
     (case a of
        NaN \<Rightarrow> False
      | PlusInf \<Rightarrow> b = PlusInf
      | MinusInf \<Rightarrow> b \<noteq> NaN
      | Finite x \<Rightarrow> (case b of NaN \<Rightarrow> False | MinusInf \<Rightarrow> False | PlusInf \<Rightarrow> True
                     | Finite y \<Rightarrow> x \<le> y))"

section \<open>PluginParameter\<close>

text \<open>
  The class \<^verbatim>\<open>PluginParameter\<close>, one field of the record per data member. The member
  \<^verbatim>\<open>value\<close> (an \<^verbatim>\<open>Atomic<float>\<close>) is the field \<open>current_value\<close>; the model is
  sequential. A JUCE \<^verbatim>\<open>Identifier\<close> and a JUCE \<^verbatim>\<open>String\<close> are lists of characters. The \<^verbatim>\<open>std::function<void(float)>\<close> member is an optional
  function that takes the actual value and transforms the state \<open>'e\<close> it has captured
  (the engine whose controls it writes); \<open>None\<close> is \<^verbatim>\<open>nullptr\<close>.
\<close>

record 'e PluginParameter =
  "identifier" :: string
  name :: string
  label :: string
  default_value :: cfloat
  current_value :: cfloat
  actual_minimum :: cfloat
  actual_maximum :: cfloat
  precision :: int
  callback :: "(cfloat \<Rightarrow> 'e \<Rightarrow> 'e) option"

definition getIdentifier :: "('e, 'x) PluginParameter_scheme \<Rightarrow> string" where
  "getIdentifier p = identifier p"

definition calculateValue :: "('e, 'x) PluginParameter_scheme \<Rightarrow> cfloat \<Rightarrow> cfloat" where
  "calculateValue p actualValue =
     fdiv (fsub actualValue (actual_minimum p)) (fsub (actual_maximum p) (actual_minimum p))"

definition calculateActualValue :: "('e, 'x) PluginParameter_scheme \<Rightarrow> cfloat \<Rightarrow> cfloat" where
  "calculateActualValue p v =
     fadd (actual_minimum p) (fmul (fsub (actual_maximum p) (actual_minimum p)) v)"

definition getActualValue :: "('e, 'x) PluginParameter_scheme \<Rightarrow> cfloat" where
  "getActualValue p = calculateActualValue p (current_value p)"

definition getActualDefaultValue :: "('e, 'x) PluginParameter_scheme \<Rightarrow> cfloat" where
  "getActualDefaultValue p = calculateActualValue p (default_value p)"

definition getActualMinimum :: "('e, 'x) PluginParameter_scheme \<Rightarrow> cfloat" where
  "getActualMinimum p = actual_minimum p"

definition getActualMaximum :: "('e, 'x) PluginParameter_scheme \<Rightarrow> cfloat" where
  "getActualMaximum p = actual_maximum p"

definition getValue :: "('e, 'x) PluginParameter_scheme \<Rightarrow> cfloat" where
  "getValue p = current_value p"


text \<open>
  \<^verbatim>\<open>setValue\<close> stores the new value and then, when a callback is attached, calls it with
  \<^verbatim>\<open>getActualValue()\<close>. The result is the parameter after the call and the state the
  callback has left.
\<close>

definition setValue :: "'e PluginParameter \<Rightarrow> cfloat \<Rightarrow> 'e \<Rightarrow> 'e PluginParameter \<times> 'e" where
  "setValue p newValue env =
     (let p' = p\<lparr>current_value := newValue\<rparr>
      in case callback p' of
           None \<Rightarrow> (p', env)
         | Some cb \<Rightarrow> (p', cb (getActualValue p') env))"

text \<open>
  The constructor from a normalized value. The members are initialised in the order of the
  class (\<^verbatim>\<open>value\<close> by JUCE's \<^verbatim>\<open>Atomic()\<close>, which stores zero), the range is set to
  \<open>[0, 1]\<close> in the body, and the body ends with \<^verbatim>\<open>setValue(defaultParameterValue)\<close>. The
  default arguments of the C++ signature (\<^verbatim>\<open>String::empty\<close>, \<open>0\<close>, \<^verbatim>\<open>nullptr\<close>) are
  passed explicitly. No argument is checked.
\<close>

definition PluginParameter_normalized ::
  "string \<Rightarrow> cfloat \<Rightarrow> string \<Rightarrow> string \<Rightarrow> int \<Rightarrow> (cfloat \<Rightarrow> 'e \<Rightarrow> 'e) option \<Rightarrow> 'e
     \<Rightarrow> 'e PluginParameter \<times> 'e" where
  "PluginParameter_normalized parameterId defaultParameterValue parameterName parameterLabel
       prec cb env =
     (let p = \<lparr>identifier = parameterId, name = parameterName, label = parameterLabel,
                default_value = defaultParameterValue, current_value = Finite 0,
                actual_minimum = Finite 0, actual_maximum = Finite 1, precision = prec, callback = cb\<rparr>
      in setValue p defaultParameterValue env)"

text \<open>
  The constructor from an actual value and range. \<^verbatim>\<open>default_value\<close> has no initialiser
  (the record starts with a NaN in its place): it is assigned in the body from
  \<^verbatim>\<open>calculateValue(actualDefaultValue)\<close>, which reads the two bounds only, and the body
  ends with \<^verbatim>\<open>setValue(default_value)\<close>. No argument is checked.
\<close>

definition PluginParameter_actual ::
  "string \<Rightarrow> cfloat \<Rightarrow> cfloat \<Rightarrow> cfloat \<Rightarrow> string \<Rightarrow> string \<Rightarrow> int \<Rightarrow> (cfloat \<Rightarrow> 'e \<Rightarrow> 'e) option \<Rightarrow> 'e
     \<Rightarrow> 'e PluginParameter \<times> 'e" where
  "PluginParameter_actual parameterId actualDefaultValue actualMinimum actualMaximum parameterName
       parameterLabel prec cb env =
     (let p0 = \<lparr>identifier = parameterId, name = parameterName, label = parameterLabel,
                 default_value = NaN, current_value = Finite 0,
                 actual_minimum = actualMinimum, actual_maximum = actualMaximum,
                 precision = prec, callback = cb\<rparr>;
          p = p0\<lparr>default_value := calculateValue p0 actualDefaultValue\<rparr>
      in setValue p (default_value p) env)"

subsection \<open>Name and text\<close>

text \<open>
  \<^verbatim>\<open>String::substring (startIndex, endIndex)\<close> of the JUCE library, by its documentation: the
  characters from \<^verbatim>\<open>startIndex\<close> up to, not including, \<^verbatim>\<open>endIndex\<close>; a negative start
  counts as zero, an end that is not after the start gives the empty string, and a range
  beyond the end of the string gives as much as there is.
\<close>

definition substring :: "string \<Rightarrow> int \<Rightarrow> int \<Rightarrow> string" where
  "substring s startIndex endIndex =
     (let start = (if startIndex < 0 then 0 else startIndex)
      in if endIndex \<le> start then []
         else take (nat (endIndex - start)) (drop (nat start) s))"

text \<open>
  \<^verbatim>\<open>getName\<close>. The argument is a mathematical integer: the model is the code for every
  \<^verbatim>\<open>int\<close> but the least one, where \<^verbatim>\<open>maximumStringLength - 1\<close> overflows.
\<close>

definition getName :: "('e, 'x) PluginParameter_scheme \<Rightarrow> int \<Rightarrow> string" where
  "getName p maximumStringLength =
     (if maximumStringLength < int (length (name p))
      then substring (name p) 0 (maximumStringLength - 1)
      else name p)"

definition getLabel :: "('e, 'x) PluginParameter_scheme \<Rightarrow> string" where
  "getLabel p = label p"

text \<open>
  \<^verbatim>\<open>getText\<close> sends the actual value to a \<^verbatim>\<open>std::ostringstream\<close> after \<^verbatim>\<open>std::fixed\<close>
  and \<^verbatim>\<open>std::setprecision(precision)\<close> and returns the stream's text. The rendering of a
  float in fixed notation belongs to the C++ standard library; it is the parameter
  \<open>fixed_text\<close>, applied to the precision and the value.
\<close>

definition getText ::
  "(int \<Rightarrow> cfloat \<Rightarrow> string) \<Rightarrow> ('e, 'x) PluginParameter_scheme \<Rightarrow> cfloat \<Rightarrow> int \<Rightarrow> string" where
  "getText fixed_text p v stringLength = fixed_text (precision p) (calculateActualValue p v)"

section \<open>The mode parameter of PluginAudioProcessor\<close>

text \<open>
  Modelled from the spec: the control struct of the engine (\<^verbatim>\<open>Distortion::controls\<close>, declared
  in \<^verbatim>\<open>Distortion.h\<close>) is, in the spec's words, a plain mapping from control name to
  actual-domain value: mode an integer, drive, threshold and mix floats.
\<close>

record controls =
  mode :: int
  drive :: cfloat
  threshold :: cfloat
  mix :: cfloat

text \<open>
  \<^verbatim>\<open>floorf\<close> rounds toward minus infinity (the result is a binary32 number again, with no
  rounding) and leaves an infinity or a NaN as it is. \<^verbatim>\<open>static_cast<int>\<close> of a float
  discards the fractional part; the behaviour is undefined (\<open>None\<close>) when the float is not
  finite or the result does not fit a 32-bit \<^verbatim>\<open>int\<close>.
\<close>

definition trunc_toward_zero :: "real \<Rightarrow> int" where
  "trunc_toward_zero x = (if 0 \<le> x then \<lfloor>x\<rfloor> else \<lceil>x\<rceil>)"

definition floorf :: "cfloat \<Rightarrow> cfloat" where
  "floorf a =
     (case a of Finite x \<Rightarrow> Finite (of_int \<lfloor>x\<rfloor>) | PlusInf \<Rightarrow> PlusInf | MinusInf \<Rightarrow> MinusInf
      | NaN \<Rightarrow> NaN)"

definition static_cast_int :: "cfloat \<Rightarrow> int option" where
  "static_cast_int a =
     (case a of
        Finite x \<Rightarrow>
          (let t = trunc_toward_zero x
           in if - 2147483648 \<le> t \<and> t \<le> 2147483647 then Some t else None)
      | PlusInf \<Rightarrow> None
      | MinusInf \<Rightarrow> None
      | NaN \<Rightarrow> None)"

text \<open>
  The callback of the mode parameter:
  \<^verbatim>\<open>processor->controls.mode = static_cast<int>(floorf(actualValue))\<close>. The state it works on
  is the engine's controls, or \<open>None\<close> once the behaviour of the program is undefined.
\<close>

definition mode_callback :: "cfloat \<Rightarrow> controls option \<Rightarrow> controls option" where
  "mode_callback actualValue s =
     (case s of
        None \<Rightarrow> None
      | Some c \<Rightarrow>
          (case static_cast_int (floorf actualValue) of
             None \<Rightarrow> None
           | Some m \<Rightarrow> Some (c\<lparr>mode := m\<rparr>)))"

text \<open>
  The first parameter that the constructor of \<^verbatim>\<open>PluginAudioProcessor\<close> creates:
  identifier \<^verbatim>\<open>"mode"\<close>, actual default \<open>0\<close>, range \<open>[0, 8]\<close>, name \<^verbatim>\<open>"Mode"\<close>, no label,
  precision \<open>0\<close>, and the callback above.
\<close>

definition mode_parameter ::
  "controls option \<Rightarrow> (controls option) PluginParameter \<times> controls option" where
  "mode_parameter s =
     PluginParameter_actual ''mode'' (Finite 0) (Finite 0) (Finite 8) ''Mode'' [] 0
       (Some mode_callback) s"

section \<open>A callback that keeps a log\<close>

text \<open>
  A callback in the style of the plugin's own (\<^verbatim>\<open>[this] (float actualValue) { ... }\<close>) whose
  captured state is the list of the values it has been called with, oldest first. One call
  makes the list one entry longer.
\<close>

definition record_call :: "cfloat \<Rightarrow> cfloat list \<Rightarrow> cfloat list" where
  "record_call actualValue calls = calls @ [actualValue]"

section \<open>Parameters of the examples\<close>

text \<open>
  The drive parameter as the plugin creates it (actual default \<open>1\<close>, range \<open>[1, 25]\<close>,
  precision \<open>2\<close>), here without its callback, and a parameter whose range runs from \<open>8\<close> down
  to \<open>0\<close>.
\<close>

definition drive_example :: "unit PluginParameter" where
  "drive_example =
     fst (PluginParameter_actual ''drive'' (Finite 1) (Finite 1) (Finite 25) ''Drive'' [] 2 None ())"

definition down_example :: "unit PluginParameter" where
  "down_example =
     fst (PluginParameter_actual ''down'' (Finite 8) (Finite 8) (Finite 0) ''Down'' [] 0 None ())"

section \<open>Rounding to binary32\<close>

declare bit_length.simps [simp del]

lemma bit_length_0 [simp]: "bit_length 0 = 0"
  by (simp add: bit_length.simps)

lemma bit_length_less: "n < 2 ^ bit_length n"
proof (induction n rule: bit_length.induct)
  case (1 n)
  show ?case
  proof (cases "n = 0")
    case True
    then show ?thesis by (simp add: bit_length.simps)
  next
    case False
    then have "n div 2 < 2 ^ bit_length (n div 2)" using 1 by simp
    then have "n < 2 * 2 ^ bit_length (n div 2)" by linarith
    then show ?thesis using False by (subst bit_length.simps) simp
  qed
qed

lemma bit_length_ge: "n \<noteq> 0 \<Longrightarrow> 2 ^ (bit_length n - 1) \<le> n"
proof (induction n rule: bit_length.induct)
  case (1 n)
  then have n: "n \<noteq> 0" by simp
  have eq: "bit_length n = Suc (bit_length (n div 2))"
    using n by (subst bit_length.simps) simp
  show ?case
  proof (cases "n div 2 = 0")
    case True
    then have "bit_length (n div 2) = 0" by (simp add: bit_length.simps)
    then show ?thesis using eq n by simp
  next
    case False
    then have ih: "2 ^ (bit_length (n div 2) - 1) \<le> n div 2" using 1 n by simp
    have pos: "bit_length (n div 2) \<noteq> 0"
      using False by (subst bit_length.simps) simp
    then have "(2::nat) ^ bit_length (n div 2) = 2 * 2 ^ (bit_length (n div 2) - 1)"
      by (cases "bit_length (n div 2)") simp_all
    then have "(2::nat) ^ bit_length (n div 2) \<le> n" using ih by linarith
    then show ?thesis using eq by simp
  qed
qed

lemma bit_length_mono: "m \<le> n \<Longrightarrow> bit_length m \<le> bit_length n"
proof (rule ccontr)
  assume mn: "m \<le> n" and "\<not> bit_length m \<le> bit_length n"
  then have lt: "bit_length n < bit_length m" by simp
  then have m0: "m \<noteq> 0" by (cases "m = 0") simp_all
  have "n < 2 ^ bit_length n" by (rule bit_length_less)
  also have "(2::nat) ^ bit_length n \<le> 2 ^ (bit_length m - 1)"
    using lt by (intro power_increasing) auto
  also have "\<dots> \<le> m" using m0 by (rule bit_length_ge)
  finally show False using mn by simp
qed

lemma round_ties_even_bounds: "\<lfloor>q\<rfloor> \<le> round_ties_even q \<and> round_ties_even q \<le> \<lfloor>q\<rfloor> + 1"
  by (simp add: round_ties_even_def Let_def)

lemma round_ties_even_of_int [simp]: "round_ties_even (of_int i) = i"
  by (simp add: round_ties_even_def Let_def)

lemma round_ties_even_mono:
  assumes "q \<le> q'"
  shows "round_ties_even q \<le> round_ties_even q'"
proof (cases "\<lfloor>q\<rfloor> = \<lfloor>q'\<rfloor>")
  case True
  then show ?thesis
    using assms by (auto simp: round_ties_even_def Let_def)
next
  case False
  then have "\<lfloor>q\<rfloor> + 1 \<le> \<lfloor>q'\<rfloor>"
    using assms floor_mono [of q q'] by linarith
  then show ?thesis
    using round_ties_even_bounds [of q] round_ties_even_bounds [of q'] by linarith
qed


lemma grid_shift_upper: "\<bar>X\<bar> < 2 ^ (grid_shift X + 24)"
proof -
  define N where "N = nat \<lfloor>\<bar>X\<bar>\<rfloor>"
  have gs: "grid_shift X = bit_length N - 24" by (simp add: grid_shift_def N_def)
  have "N < 2 ^ bit_length N" by (rule bit_length_less)
  then have "Suc N \<le> 2 ^ bit_length N" by linarith
  also have "(2::nat) ^ bit_length N \<le> 2 ^ (grid_shift X + 24)"
    using gs by (intro power_increasing) auto
  finally have "real (Suc N) \<le> real ((2::nat) ^ (grid_shift X + 24))"
    by (simp only: of_nat_le_iff)
  moreover have "\<bar>X\<bar> < real (Suc N)"
    unfolding N_def by (simp add: of_nat_nat) linarith
  ultimately show ?thesis by simp
qed

lemma grid_shift_lower:
  assumes "0 < grid_shift X"
  shows "2 ^ (grid_shift X + 23) \<le> \<bar>X\<bar>"
proof -
  define N where "N = nat \<lfloor>\<bar>X\<bar>\<rfloor>"
  have bl: "bit_length N = grid_shift X + 24"
    using assms by (simp add: grid_shift_def N_def)
  then have N0: "N \<noteq> 0" by (cases "N = 0") simp_all
  then have "2 ^ (bit_length N - 1) \<le> N" by (rule bit_length_ge)
  then have "(2::nat) ^ (grid_shift X + 23) \<le> N" using bl by (simp add: add.commute)
  then have "real ((2::nat) ^ (grid_shift X + 23)) \<le> real N"
    by (simp only: of_nat_le_iff)
  then have A: "(2::real) ^ (grid_shift X + 23) \<le> real N" by simp
  have B: "real N \<le> \<bar>X\<bar>"
    unfolding N_def by (simp add: of_nat_nat)
  from A B show ?thesis by linarith
qed

lemma grid_shift_mono: "\<bar>X\<bar> \<le> \<bar>Y\<bar> \<Longrightarrow> grid_shift X \<le> grid_shift Y"
  unfolding grid_shift_def
  by (intro diff_le_mono bit_length_mono nat_mono floor_mono)

lemma round_to_grid_nonneg: "0 \<le> X \<Longrightarrow> 0 \<le> round_to_grid X"
proof -
  assume "0 \<le> X"
  then have "(0::real) \<le> X / 2 ^ grid_shift X" by simp
  then have "round_ties_even 0 \<le> round_ties_even (X / 2 ^ grid_shift X)"
    by (rule round_ties_even_mono)
  then show ?thesis
    using round_ties_even_of_int [of 0] by (simp add: round_to_grid_def)
qed

lemma round_to_grid_nonpos: "X \<le> 0 \<Longrightarrow> round_to_grid X \<le> 0"
proof -
  assume "X \<le> 0"
  then have "X / 2 ^ grid_shift X \<le> (0::real)" by (simp add: divide_le_0_iff)
  then have "round_ties_even (X / 2 ^ grid_shift X) \<le> round_ties_even 0"
    by (rule round_ties_even_mono)
  then show ?thesis
    using round_ties_even_of_int [of 0] by (simp add: round_to_grid_def mult_le_0_iff)
qed

text \<open>A value below \<open>2 ^ (k + 24)\<close> in size with shift \<open>k\<close> rounds to at most that size.\<close>

lemma round_to_grid_le_pow:
  assumes "X \<le> 2 ^ (k + 24)" and "grid_shift X = k"
  shows "round_to_grid X \<le> 2 ^ (k + 24)"
proof -
  have "X / 2 ^ k \<le> 2 ^ (k + 24) / 2 ^ k"
    using assms(1) by (simp add: divide_right_mono)
  also have "\<dots> = of_int (2 ^ 24)" by (simp add: power_add)
  finally have "round_ties_even (X / 2 ^ k) \<le> round_ties_even (of_int (2 ^ 24))"
    by (rule round_ties_even_mono)
  then have "round_ties_even (X / 2 ^ k) \<le> 2 ^ 24" by (simp only: round_ties_even_of_int)
  then have "round_ties_even (X / 2 ^ k) * 2 ^ k \<le> 2 ^ 24 * 2 ^ k"
    by (intro mult_right_mono) auto
  then show ?thesis using assms(2) by (simp add: round_to_grid_def power_add mult.commute)
qed

lemma round_to_grid_ge_pow:
  assumes "2 ^ (k + 23) \<le> X" and "grid_shift X = k"
  shows "2 ^ (k + 23) \<le> round_to_grid X"
proof -
  have "of_int (2 ^ 23) = (2::real) ^ (k + 23) / 2 ^ k" by (simp add: power_add)
  also have "\<dots> \<le> X / 2 ^ k"
    using assms(1) by (simp add: divide_right_mono)
  finally have "round_ties_even (of_int (2 ^ 23)) \<le> round_ties_even (X / 2 ^ k)"
    by (rule round_ties_even_mono)
  then have "2 ^ 23 \<le> round_ties_even (X / 2 ^ k)" by (simp only: round_ties_even_of_int)
  then have "2 ^ 23 * 2 ^ k \<le> round_ties_even (X / 2 ^ k) * 2 ^ k"
    by (intro mult_right_mono) auto
  then show ?thesis using assms(2) by (simp add: round_to_grid_def power_add mult.commute)
qed

lemma round_to_grid_ge_neg_pow:
  assumes "- (2 ^ (k + 24)) \<le> X" and "grid_shift X = k"
  shows "- (2 ^ (k + 24)) \<le> round_to_grid X"
proof -
  have "of_int (- (2 ^ 24)) = - ((2::real) ^ (k + 24)) / 2 ^ k" by (simp add: power_add)
  also have "\<dots> \<le> X / 2 ^ k"
    using assms(1) by (intro divide_right_mono) auto
  finally have "round_ties_even (of_int (- (2 ^ 24))) \<le> round_ties_even (X / 2 ^ k)"
    by (rule round_ties_even_mono)
  then have "- (2 ^ 24) \<le> round_ties_even (X / 2 ^ k)" by (simp only: round_ties_even_of_int)
  then have "- (2 ^ 24) * 2 ^ k \<le> round_ties_even (X / 2 ^ k) * 2 ^ k"
    by (intro mult_right_mono) auto
  then show ?thesis using assms(2) by (simp add: round_to_grid_def power_add mult.commute)
qed

lemma round_to_grid_le_neg_pow:
  assumes "X \<le> - (2 ^ (k + 23))" and "grid_shift X = k"
  shows "round_to_grid X \<le> - (2 ^ (k + 23))"
proof -
  have "X / 2 ^ k \<le> - ((2::real) ^ (k + 23)) / 2 ^ k"
    using assms(1) by (intro divide_right_mono) auto
  also have "\<dots> = of_int (- (2 ^ 23))" by (simp add: power_add)
  finally have "round_ties_even (X / 2 ^ k) \<le> round_ties_even (of_int (- (2 ^ 23)))"
    by (rule round_ties_even_mono)
  then have "round_ties_even (X / 2 ^ k) \<le> - (2 ^ 23)" by (simp only: round_ties_even_of_int)
  then have "round_ties_even (X / 2 ^ k) * 2 ^ k \<le> - (2 ^ 23) * 2 ^ k"
    by (intro mult_right_mono) auto
  then show ?thesis using assms(2) by (simp add: round_to_grid_def power_add mult.commute)
qed

lemma round_to_grid_same_shift:
  assumes "X \<le> Y" and "grid_shift X = grid_shift Y"
  shows "round_to_grid X \<le> round_to_grid Y"
proof -
  have "X / 2 ^ grid_shift Y \<le> Y / 2 ^ grid_shift Y"
    using assms(1) by (simp add: divide_right_mono)
  then have "round_ties_even (X / 2 ^ grid_shift Y) \<le> round_ties_even (Y / 2 ^ grid_shift Y)"
    by (rule round_ties_even_mono)
  then show ?thesis
    using assms(2) by (simp add: round_to_grid_def mult_right_mono)
qed

lemma round_to_grid_mono:
  assumes "X \<le> Y"
  shows "round_to_grid X \<le> round_to_grid Y"
proof -
  consider (pos) "0 \<le> X" | (neg) "Y \<le> 0" | (mixed) "X < 0" "0 < Y" by linarith
  then show ?thesis
  proof cases
    case pos
    then have "\<bar>X\<bar> \<le> \<bar>Y\<bar>" using assms by simp
    then have le: "grid_shift X \<le> grid_shift Y" by (rule grid_shift_mono)
    show ?thesis
    proof (cases "grid_shift X = grid_shift Y")
      case True
      with assms show ?thesis by (rule round_to_grid_same_shift)
    next
      case False
      then have lt: "grid_shift X < grid_shift Y" using le by simp
      have "X \<le> 2 ^ (grid_shift X + 24)" using grid_shift_upper [of X] pos by simp
      then have "round_to_grid X \<le> 2 ^ (grid_shift X + 24)"
        by (rule round_to_grid_le_pow) simp
      also have "(2::int) ^ (grid_shift X + 24) \<le> 2 ^ (grid_shift Y + 23)"
        using lt by (intro power_increasing) auto
      also have "\<dots> \<le> round_to_grid Y"
      proof (rule round_to_grid_ge_pow)
        show "2 ^ (grid_shift Y + 23) \<le> Y"
          using grid_shift_lower [of Y] lt pos assms by simp
      qed simp
      finally show ?thesis .
    qed
  next
    case neg
    then have "\<bar>Y\<bar> \<le> \<bar>X\<bar>" using assms by simp
    then have le: "grid_shift Y \<le> grid_shift X" by (rule grid_shift_mono)
    show ?thesis
    proof (cases "grid_shift X = grid_shift Y")
      case True
      with assms show ?thesis by (rule round_to_grid_same_shift)
    next
      case False
      then have lt: "grid_shift Y < grid_shift X" using le by simp
      have "X \<le> - (2 ^ (grid_shift X + 23))"
        using grid_shift_lower [of X] lt neg assms by simp
      then have "round_to_grid X \<le> - (2 ^ (grid_shift X + 23))"
        by (rule round_to_grid_le_neg_pow) simp
      also have "- ((2::int) ^ (grid_shift X + 23)) \<le> - (2 ^ (grid_shift Y + 24))"
        using lt by (simp add: power_increasing)
      also have "\<dots> \<le> round_to_grid Y"
      proof (rule round_to_grid_ge_neg_pow)
        show "- (2 ^ (grid_shift Y + 24)) \<le> Y"
          using grid_shift_upper [of Y] neg by simp
      qed simp
      finally show ?thesis .
    qed
  next
    case mixed
    then show ?thesis
      using round_to_grid_nonpos [of X] round_to_grid_nonneg [of Y] by simp
  qed
qed


section \<open>Values of the rounding function\<close>

text \<open>
  A value of \<open>round32\<close> is computed from the shift and the rounded significand, each
  evaluated on its own.
\<close>

lemma round32_value:
  "grid_shift (x * 2 ^ 149) = k \<Longrightarrow> round_ties_even (x * 2 ^ 149 / 2 ^ k) = m \<Longrightarrow>
   binary32_of_scaled (m * 2 ^ k) = r \<Longrightarrow> round32 x = r"
  by (simp add: round32_def round_to_grid_def)

lemmas round32_eval =
  grid_shift_def bit_length.simps round_ties_even_def Let_def binary32_of_scaled_def

lemma round32_0: "round32 0 = Finite 0"
  by (rule round32_value [where k = 0 and m = 0]) (simp_all add: round32_eval)

lemma round32_1: "round32 1 = Finite 1"
  by (rule round32_value [where k = 126 and m = 8388608]) (simp_all add: round32_eval)

lemma round32_2: "round32 2 = Finite 2"
  by (rule round32_value [where k = 127 and m = 8388608]) (simp_all add: round32_eval)

lemma round32_4: "round32 4 = Finite 4"
  by (rule round32_value [where k = 128 and m = 8388608]) (simp_all add: round32_eval)

lemma round32_8: "round32 8 = Finite 8"
  by (rule round32_value [where k = 129 and m = 8388608]) (simp_all add: round32_eval)

lemma round32_12: "round32 12 = Finite 12"
  by (rule round32_value [where k = 129 and m = 12582912]) (simp_all add: round32_eval)

lemma round32_13: "round32 13 = Finite 13"
  by (rule round32_value [where k = 129 and m = 13631488]) (simp_all add: round32_eval)

lemma round32_24: "round32 24 = Finite 24"
  by (rule round32_value [where k = 130 and m = 12582912]) (simp_all add: round32_eval)

lemma round32_25: "round32 25 = Finite 25"
  by (rule round32_value [where k = 130 and m = 13107200]) (simp_all add: round32_eval)

lemma round32_neg_4: "round32 (- 4) = Finite (- 4)"
  by (rule round32_value [where k = 128 and m = "- 8388608"]) (simp_all add: round32_eval)

lemma round32_neg_8: "round32 (- 8) = Finite (- 8)"
  by (rule round32_value [where k = 129 and m = "- 8388608"]) (simp_all add: round32_eval)

lemma round32_half: "round32 (1 / 2) = Finite (1 / 2)"
  by (rule round32_value [where k = 125 and m = 8388608]) (simp_all add: round32_eval)

lemma round32_neg_half: "round32 (- (1 / 2)) = Finite (- (1 / 2))"
  by (rule round32_value [where k = 125 and m = "- 8388608"]) (simp_all add: round32_eval)

lemma round32_quarter: "round32 (1 / 4) = Finite (1 / 4)"
  by (rule round32_value [where k = 124 and m = 8388608]) (simp_all add: round32_eval)

lemma round32_neg_sixteenth: "round32 (- (1 / 16)) = Finite (- (1 / 16))"
  by (rule round32_value [where k = 122 and m = "- 8388608"]) (simp_all add: round32_eval)

lemma round32_2_pow_neg_30: "round32 (1 / 1073741824) = Finite (1 / 1073741824)"
  by (rule round32_value [where k = 96 and m = 8388608]) (simp_all add: round32_eval)

lemma round32_24_pow_neg_30: "round32 (3 / 134217728) = Finite (3 / 134217728)"
  by (rule round32_value [where k = 100 and m = 12582912]) (simp_all add: round32_eval)

lemma round32_1_plus_24_pow_neg_30: "round32 (134217731 / 134217728) = Finite 1"
  by (rule round32_value [where k = 126 and m = 8388608]) (simp_all add: round32_eval)

lemma round32_2_pow_24: "round32 16777216 = Finite 16777216"
  by (rule round32_value [where k = 150 and m = 8388608]) (simp_all add: round32_eval)

lemma round32_2_pow_24_plus_2: "round32 16777218 = Finite 16777218"
  by (rule round32_value [where k = 150 and m = 8388609]) (simp_all add: round32_eval)

lemma round32_2_pow_24_plus_half: "round32 (33554433 / 2) = Finite 16777216"
  by (rule round32_value [where k = 150 and m = 8388608]) (simp_all add: round32_eval)

lemma round32_2_pow_127:
  "round32 170141183460469231731687303715884105728 =
     Finite 170141183460469231731687303715884105728"
  by (rule round32_value [where k = 253 and m = 8388608]) (simp_all add: round32_eval)

lemma round32_neg_2_pow_127:
  "round32 (- 170141183460469231731687303715884105728) =
     Finite (- 170141183460469231731687303715884105728)"
  by (rule round32_value [where k = 253 and m = "- 8388608"]) (simp_all add: round32_eval)

lemma round32_2_pow_128: "round32 340282366920938463463374607431768211456 = PlusInf"
  by (rule round32_value [where k = 254 and m = 8388608]) (simp_all add: round32_eval)

lemmas round32_values =
  round32_0 round32_1 round32_2 round32_4 round32_8
  round32_12 round32_13 round32_24 round32_25 round32_neg_4
  round32_neg_8 round32_half round32_neg_half round32_quarter round32_neg_sixteenth
  round32_2_pow_neg_30 round32_24_pow_neg_30 round32_1_plus_24_pow_neg_30 round32_2_pow_24 round32_2_pow_24_plus_2
  round32_2_pow_24_plus_half round32_2_pow_127 round32_neg_2_pow_127 round32_2_pow_128

section \<open>Arithmetic and order of floats\<close>

lemma fadd_Finite [simp]: "fadd (Finite x) (Finite y) = round32 (x + y)"
  by (simp add: fadd_def)

lemma fsub_Finite [simp]: "fsub (Finite x) (Finite y) = round32 (x - y)"
  by (simp add: fsub_def fadd_def fneg_def)

lemma fmul_Finite [simp]: "fmul (Finite x) (Finite y) = round32 (x * y)"
  by (simp add: fmul_def)

lemma fdiv_Finite [simp]: "y \<noteq> 0 \<Longrightarrow> fdiv (Finite x) (Finite y) = round32 (x / y)"
  by (simp add: fdiv_def)

lemma round32_not_NaN [simp]: "round32 x \<noteq> NaN"
  by (simp add: round32_def binary32_of_scaled_def)

lemma binary32_of_scaled_mono: "m \<le> n \<Longrightarrow> fle (binary32_of_scaled m) (binary32_of_scaled n)"
  by (simp add: binary32_of_scaled_def fle_def divide_right_mono)

lemma round32_mono: "x \<le> y \<Longrightarrow> fle (round32 x) (round32 y)"
  unfolding round32_def
  by (intro binary32_of_scaled_mono round_to_grid_mono) simp

lemma fle_MinusInf [simp]: "fle MinusInf b \<longleftrightarrow> b \<noteq> NaN"
  by (simp add: fle_def)

lemma fle_PlusInf [simp]: "fle a PlusInf \<longleftrightarrow> a \<noteq> NaN"
  by (cases a) (simp_all add: fle_def)

lemma fle_Finite [simp]: "fle (Finite x) (Finite y) \<longleftrightarrow> x \<le> y"
  by (simp add: fle_def)

lemma fle_Finite_MinusInf [simp]: "\<not> fle (Finite x) MinusInf"
  by (simp add: fle_def)

lemma fle_NaN [simp]: "\<not> fle NaN b" "\<not> fle a NaN"
  by (cases a; simp add: fle_def)+

lemma fadd_Finite_not_NaN: "r \<noteq> NaN \<Longrightarrow> fadd (Finite x) r \<noteq> NaN"
  by (cases r) (simp_all add: fadd_def)

lemma fadd_Finite_mono:
  assumes "fle r r'"
  shows "fle (fadd (Finite x) r) (fadd (Finite x) r')"
proof (cases r)
  case (Finite y)
  show ?thesis
  proof (cases r')
    case (Finite y')
    then show ?thesis using assms \<open>r = Finite y\<close> by (simp add: round32_mono)
  qed (use assms \<open>r = Finite y\<close> in \<open>simp_all add: fadd_def\<close>)
next
  case PlusInf
  then show ?thesis using assms by (cases r') (simp_all add: fadd_def fle_def)
next
  case MinusInf
  then have "r' \<noteq> NaN" using assms by simp
  then have "fadd (Finite x) r' \<noteq> NaN" by (rule fadd_Finite_not_NaN)
  then show ?thesis using MinusInf by (simp add: fadd_def)
next
  case NaN
  then show ?thesis using assms by simp
qed

lemma fsub_Finite_cases:
  assumes "fsub a b = Finite d"
  obtains x y where "a = Finite x" and "b = Finite y"
  using assms by (cases a; cases b) (simp_all add: fsub_def fadd_def fneg_def)

lemma round32_nonneg: "0 \<le> x \<Longrightarrow> round32 x = Finite d \<Longrightarrow> 0 \<le> d"
  using round32_mono [of 0 x] by (simp add: round32_0)

lemma round32_nonpos: "x \<le> 0 \<Longrightarrow> round32 x = Finite d \<Longrightarrow> d \<le> 0"
  using round32_mono [of x 0] by (simp add: round32_0)

lemmas construct =
  drive_example_def down_example_def
  PluginParameter_actual_def PluginParameter_normalized_def setValue_def Let_def
  calculateValue_def calculateActualValue_def getActualValue_def getActualDefaultValue_def
  getValue_def

section \<open>The round trip of the two mappings\<close>




text \<open>On the range \<open>[0, 1]\<close> of the normalized constructor no step rounds.\<close>

lemma round_trip_unit_range:
  assumes "actual_minimum p = Finite 0" and "actual_maximum p = Finite 1" and "exact32 v"
  shows "calculateValue p (calculateActualValue p (Finite v)) = Finite v"
  using assms by (simp add: calculateValue_def calculateActualValue_def exact32_def round32_1)

section \<open>Monotonicity of the forward mapping\<close>

text \<open>
  Claim C3, as the spec states it, asks that \<^verbatim>\<open>calculateActualValue\<close> be strictly
  increasing when \<^verbatim>\<open>actual_minimum < actual_maximum\<close>. On the range \<open>[1, 25]\<close> of the drive
  parameter the inputs \<open>0\<close> and \<^verbatim>\<open>2^-30\<close> are both sent to \<open>1\<close>: the exact value
  \<^verbatim>\<open>1 + 24 * 2^-30\<close> rounds to \<open>1\<close>.
\<close>

theorem strict_monotonicity_counterexample:
  "exact32 (1 / 2 ^ 30) \<and> (0::real) < 1 / 2 ^ 30 \<and>
   flt (actual_minimum drive_example) (actual_maximum drive_example) \<and>
   calculateActualValue drive_example (Finite 0) = Finite 1 \<and>
   calculateActualValue drive_example (Finite (1 / 2 ^ 30)) = Finite 1 \<and>
   \<not> flt (calculateActualValue drive_example (Finite 0))
          (calculateActualValue drive_example (Finite (1 / 2 ^ 30)))"
  by (simp add: construct exact32_def flt_def round32_values)

text \<open>
  Claim C3, amended. When the width \<^verbatim>\<open>actual_maximum - actual_minimum\<close> is finite (the
  subtraction does not overflow), \<^verbatim>\<open>calculateActualValue\<close> is monotone, though not
  strictly: for finite \<open>v1 < v2\<close>, the result at \<open>v1\<close> is less than or equal to the result at
  \<open>v2\<close> when \<^verbatim>\<open>actual_minimum < actual_maximum\<close>, and greater than or equal to it when
  \<^verbatim>\<open>actual_minimum > actual_maximum\<close>.
\<close>

theorem calculateActualValue_monotone:
  assumes width: "fsub (actual_maximum p) (actual_minimum p) = Finite d" and less: "v1 < v2"
  shows "(flt (actual_minimum p) (actual_maximum p) \<longrightarrow>
            fle (calculateActualValue p (Finite v1)) (calculateActualValue p (Finite v2))) \<and>
         (flt (actual_maximum p) (actual_minimum p) \<longrightarrow>
            fle (calculateActualValue p (Finite v2)) (calculateActualValue p (Finite v1)))"
proof -
  from width obtain hi lo where hi: "actual_maximum p = Finite hi" and lo: "actual_minimum p = Finite lo"
    by (rule fsub_Finite_cases)
  have d: "round32 (hi - lo) = Finite d" using width hi lo by simp
  have val: "calculateActualValue p (Finite v) = fadd (Finite lo) (round32 (d * v))" for v
    using width lo by (simp add: calculateActualValue_def)
  show ?thesis
  proof (intro conjI impI)
    assume "flt (actual_minimum p) (actual_maximum p)"
    then have "lo < hi" using hi lo by (simp add: flt_def)
    then have "0 \<le> d" using d round32_nonneg [of "hi - lo" d] by simp
    then have "d * v1 \<le> d * v2" using less by (simp add: mult_left_mono)
    then have "fle (round32 (d * v1)) (round32 (d * v2))" by (rule round32_mono)
    then show "fle (calculateActualValue p (Finite v1)) (calculateActualValue p (Finite v2))"
      unfolding val by (rule fadd_Finite_mono)
  next
    assume "flt (actual_maximum p) (actual_minimum p)"
    then have "hi < lo" using hi lo by (simp add: flt_def)
    then have "d \<le> 0" using d round32_nonpos [of "hi - lo" d] by simp
    then have "d * v2 \<le> d * v1" using less by (simp add: mult_left_mono_neg)
    then have "fle (round32 (d * v2)) (round32 (d * v1))" by (rule round32_mono)
    then show "fle (calculateActualValue p (Finite v2)) (calculateActualValue p (Finite v1))"
      unfolding val by (rule fadd_Finite_mono)
  qed
qed

text \<open>
  The range \<open>[1, 25]\<close> of the drive parameter sends \<open>0\<close> and \<open>1/2\<close> to \<open>1\<close> and \<open>13\<close>; the
  reversed range from \<open>8\<close> down to \<open>0\<close> sends them to \<open>8\<close> and \<open>4\<close>.
\<close>

theorem calculateActualValue_monotone_witness:
  "fsub (actual_maximum drive_example) (actual_minimum drive_example) = Finite 24 \<and>
   (0::real) < 1 / 2 \<and>
   flt (actual_minimum drive_example) (actual_maximum drive_example) \<and>
   calculateActualValue drive_example (Finite 0) = Finite 1 \<and>
   calculateActualValue drive_example (Finite (1 / 2)) = Finite 13 \<and>
   fle (calculateActualValue drive_example (Finite 0))
       (calculateActualValue drive_example (Finite (1 / 2))) \<and>
   fsub (actual_maximum down_example) (actual_minimum down_example) = Finite (- 8) \<and>
   flt (actual_maximum down_example) (actual_minimum down_example) \<and>
   calculateActualValue down_example (Finite 0) = Finite 8 \<and>
   calculateActualValue down_example (Finite (1 / 2)) = Finite 4 \<and>
   fle (calculateActualValue down_example (Finite (1 / 2)))
       (calculateActualValue down_example (Finite 0))"
  using
    calculateActualValue_monotone [of drive_example 24 0 "1 / 2"]
    calculateActualValue_monotone [of down_example "- 8" 0 "1 / 2"]
  by (simp add: construct flt_def round32_values)

section \<open>setValue and the callback\<close>

lemma setValue_fst: "fst (setValue p newValue env) = p\<lparr>current_value := newValue\<rparr>"
  by (simp add: setValue_def Let_def split: option.split)

lemma setValue_snd_Some:
  "callback p = Some cb \<Longrightarrow>
   snd (setValue p newValue env) = cb (calculateActualValue p newValue) env"
  by (simp add: setValue_def Let_def getActualValue_def calculateActualValue_def)

lemma setValue_snd_None: "callback p = None \<Longrightarrow> snd (setValue p newValue env) = env"
  by (simp add: setValue_def Let_def)

text \<open>
  Claim C2. A call of \<^verbatim>\<open>setValue(newValue)\<close> on a parameter with a callback applies the
  callback exactly once, to \<^verbatim>\<open>calculateActualValue(newValue)\<close>: the state after the call
  is the callback's result on the state before it, and the log of a logging callback grows by
  that one value. The \<^verbatim>\<open>setValue\<close> call inside either
  constructor does the same with the actual default value of the parameter built. Without a
  callback the state is left as it was, by \<^verbatim>\<open>setValue\<close> and by both constructors.
\<close>

theorem setValue_fires_callback_once:
  "(callback p = Some cb \<longrightarrow>
      snd (setValue p newValue env) = cb (calculateActualValue p newValue) env) \<and>
   (callback q = Some record_call \<longrightarrow>
      snd (setValue q newValue calls) = calls @ [calculateActualValue q newValue]) \<and>
   (callback p = None \<longrightarrow> snd (setValue p newValue env) = env) \<and>
   snd (PluginParameter_normalized i d nm lb pr (Some cb) env) =
     cb (getActualDefaultValue (fst (PluginParameter_normalized i d nm lb pr (Some cb) env))) env \<and>
   snd (PluginParameter_actual i a lo hi nm lb pr (Some cb) env) =
     cb (getActualDefaultValue (fst (PluginParameter_actual i a lo hi nm lb pr (Some cb) env))) env \<and>
   snd (PluginParameter_normalized i d nm lb pr None env) = env \<and>
   snd (PluginParameter_actual i a lo hi nm lb pr None env) = env"
  by (simp add: setValue_snd_Some setValue_snd_None setValue_fst PluginParameter_normalized_def
      PluginParameter_actual_def Let_def getActualDefaultValue_def calculateActualValue_def
      record_call_def)

text \<open>
  With the logging callback on the range \<open>[0, 8]\<close>: construction from the actual default \<open>0\<close>
  logs the single value \<open>0\<close>, and \<^verbatim>\<open>setValue(0.5)\<close> then adds the single value \<open>4\<close>. A
  parameter built without a callback leaves the log empty.
\<close>

theorem setValue_fires_callback_once_witness:
  "callback (fst (PluginParameter_actual ''mode'' (Finite 0) (Finite 0) (Finite 8) ''Mode'' [] 0
          (Some record_call) []))
     = Some record_call \<and>
   snd (PluginParameter_actual ''mode'' (Finite 0) (Finite 0) (Finite 8) ''Mode'' [] 0
          (Some record_call) [])
     = [Finite 0] \<and>
   snd (setValue
          (fst (PluginParameter_actual ''mode'' (Finite 0) (Finite 0) (Finite 8) ''Mode'' [] 0
          (Some record_call) []))
          (Finite (1 / 2)) [Finite 0])
     = [Finite 0, Finite 4] \<and>
   callback (fst (PluginParameter_normalized ''mix'' (Finite 1) ''Mix'' [] 2 None ([] :: cfloat list)))
     = None \<and>
   snd (setValue
          (fst (PluginParameter_normalized ''mix'' (Finite 1) ''Mix'' [] 2 None ([] :: cfloat list)))
          (Finite (1 / 2)) [])
     = []"
  using
    setValue_fires_callback_once
      [where p = "fst (PluginParameter_actual ''mode'' (Finite 0) (Finite 0) (Finite 8)
                        ''Mode'' [] 0 (Some record_call) [])"
         and q = "fst (PluginParameter_actual ''mode'' (Finite 0) (Finite 0) (Finite 8)
                        ''Mode'' [] 0 (Some record_call) [])"
         and cb = record_call and newValue = "Finite (1 / 2)"
         and env = "[Finite 0]" and calls = "[Finite 0]"
         and i = "''mode''" and d = "Finite 1" and nm = "''Mode''" and lb = "[]" and pr = 0
         and a = "Finite 0" and lo = "Finite 0" and hi = "Finite 8"]
    setValue_fires_callback_once
      [where p = "fst (PluginParameter_normalized ''mix'' (Finite 1) ''Mix'' [] 2 None
                        ([] :: cfloat list))"
         and q = "fst (PluginParameter_actual ''mode'' (Finite 0) (Finite 0) (Finite 8)
                        ''Mode'' [] 0 (Some record_call) [])"
         and cb = record_call and newValue = "Finite (1 / 2)"
         and env = "[]" and calls = "[]"
         and i = "''mix''" and d = "Finite 1" and nm = "''Mix''" and lb = "[]" and pr = 2
         and a = "Finite 1" and lo = "Finite 0" and hi = "Finite 1"]
  by (simp add: construct record_call_def round32_values)

text \<open>
  Claim C9. \<^verbatim>\<open>setValue(newValue)\<close> changes the stored normalized value and nothing else
  of the parameter: identifier, name, label, default value, both range bounds, precision and
  callback are what they were.
\<close>

theorem setValue_changes_value_only:
  "fst (setValue p newValue env) = p\<lparr>current_value := newValue\<rparr> \<and>
   identifier (fst (setValue p newValue env)) = identifier p \<and>
   name (fst (setValue p newValue env)) = name p \<and>
   label (fst (setValue p newValue env)) = label p \<and>
   default_value (fst (setValue p newValue env)) = default_value p \<and>
   actual_minimum (fst (setValue p newValue env)) = actual_minimum p \<and>
   actual_maximum (fst (setValue p newValue env)) = actual_maximum p \<and>
   precision (fst (setValue p newValue env)) = precision p \<and>
   callback (fst (setValue p newValue env)) = callback p"
  by (simp add: setValue_fst)

section \<open>Construction\<close>




text \<open>
  Claim C6, as the spec states it, asks that construction with an empty identifier fail. It
  does not: the constructor from a normalized value builds the parameter below from the
  empty identifier.
\<close>

theorem empty_identifier_counterexample:
  "PluginParameter_normalized [] (Finite 1) ''Mix'' [] 2 None () =
     (\<lparr>identifier = [], name = ''Mix'', label = [], default_value = Finite 1,
       current_value = Finite 1, actual_minimum = Finite 0, actual_maximum = Finite 1,
       precision = 2, callback = None\<rparr>, ())"
  by (simp add: PluginParameter_normalized_def setValue_def)

text \<open>
  Claim C6, amended. Neither constructor checks the identifier: for every identifier, empty
  or not, construction builds a parameter, and \<^verbatim>\<open>getIdentifier()\<close> of that parameter is the
  identifier that was passed.
\<close>

theorem construction_keeps_any_identifier:
  "getIdentifier (fst (PluginParameter_normalized i d nm lb pr cb env)) = i \<and>
   getIdentifier (fst (PluginParameter_actual i a lo hi nm lb pr cb env)) = i"
  by (simp add: PluginParameter_normalized_def PluginParameter_actual_def Let_def setValue_fst
      getIdentifier_def)

section \<open>Name and text\<close>

text \<open>
  Claim C7. For every stored name and every \<open>n \<ge> 1\<close>, \<^verbatim>\<open>getName(n)\<close> has at most \<open>n\<close>
  characters, and it is the whole name when \<open>n\<close> exceeds the length of the name.
\<close>

theorem getName_length:
  assumes "1 \<le> n"
  shows "int (length (getName p n)) \<le> n \<and>
         (int (length (name p)) < n \<longrightarrow> getName p n = name p)"
  using assms by (auto simp: getName_def substring_def)

text \<open>
  The name \<^verbatim>\<open>"Mode"\<close>: asked for at most three characters it gives two, and
  asked for at most twenty it gives the whole name.
\<close>

theorem getName_length_witness:
  "(1::int) \<le> 3 \<and> (1::int) \<le> 20 \<and>
   getName (fst (PluginParameter_actual ''mode'' (Finite 0) (Finite 0) (Finite 8) ''Mode'' [] 0
                   None ())) 3 = ''Mo'' \<and>
   int (length (name (fst (PluginParameter_actual ''mode'' (Finite 0) (Finite 0) (Finite 8)
                             ''Mode'' [] 0 None ())))) < 20 \<and>
   getName (fst (PluginParameter_actual ''mode'' (Finite 0) (Finite 0) (Finite 8) ''Mode'' [] 0
                   None ())) 20 = ''Mode''"
  using
    getName_length [of 3 "fst (PluginParameter_actual ''mode'' (Finite 0) (Finite 0) (Finite 8)
                                 ''Mode'' [] 0 None ())"]
    getName_length [of 20 "fst (PluginParameter_actual ''mode'' (Finite 0) (Finite 0) (Finite 8)
                                  ''Mode'' [] 0 None ())"]
  by (simp add: PluginParameter_actual_def setValue_def Let_def getName_def substring_def)

text \<open>
  Claim C10. The text that \<^verbatim>\<open>getText(value, stringLength)\<close> returns does not depend on
  \<^verbatim>\<open>stringLength\<close>: two calls with the same value and different lengths return the same
  text.
\<close>

theorem getText_ignores_stringLength:
  "getText fixed_text p v n1 = getText fixed_text p v n2"
  by (simp add: getText_def)

section \<open>The mode callback\<close>

lemma floor_eq_trunc_toward_zero:
  "\<lfloor>a\<rfloor> = trunc_toward_zero a \<longleftrightarrow> 0 \<le> a \<or> a \<in> \<int>"
  unfolding trunc_toward_zero_def
  by (metis Ints_of_int floor_of_int le_of_int_ceiling of_int_ceiling of_int_floor_le
      order_antisym_conv)

lemma trunc_toward_zero_floor: "trunc_toward_zero (of_int \<lfloor>a\<rfloor>) = \<lfloor>a\<rfloor>"
  by (simp add: trunc_toward_zero_def)

text \<open>
  The mode parameter at work: its construction calls the callback with the actual default
  \<open>0\<close>, so the mode becomes \<open>0\<close>; \<^verbatim>\<open>setValue(0.5)\<close> on the range \<open>[0, 8]\<close> calls it with
  \<open>4\<close>; and \<^verbatim>\<open>setValue(-0.0625)\<close>, which the setter accepts, calls it with \<open>-1/2\<close>.
\<close>

lemmas mode_eval =
  mode_parameter_def construct mode_callback_def static_cast_int_def floorf_def
  trunc_toward_zero_def round32_values

lemma mode_parameter_constructed: "snd (mode_parameter (Some c)) = Some (c\<lparr>mode := 0\<rparr>)"
  by (simp add: mode_eval)

lemma mode_parameter_setValue_half:
  "snd (setValue (fst (mode_parameter s)) (Finite (1 / 2)) (Some c)) = Some (c\<lparr>mode := 4\<rparr>)"
  by (simp add: mode_eval)

lemma mode_parameter_setValue_negative:
  "snd (setValue (fst (mode_parameter s)) (Finite (- 1 / 16)) (Some c)) = Some (c\<lparr>mode := - 1\<rparr>)"
  by (simp add: mode_eval ceiling_def)

text \<open>
  Claim C5, as the spec states it, asks that the mode written be the actual value truncated
  toward zero. At the actual value \<open>-1/2\<close> the callback writes \<open>-1\<close>, and truncation toward
  zero gives \<open>0\<close>.
\<close>

theorem mode_callback_truncation_counterexample:
  "map_option mode
     (mode_callback (Finite (- 1 / 2))
        (Some \<lparr>mode = 0, drive = Finite 1, threshold = Finite 1, mix = Finite 1\<rparr>)) = Some (- 1) \<and>
   trunc_toward_zero (- 1 / 2) = 0"
  by (simp add: mode_callback_def static_cast_int_def floorf_def trunc_toward_zero_def
      ceiling_def)

text \<open>
  Claim C5, amended. The mode callback writes the floor of the actual value it receives (the
  value rounded toward minus infinity), for every finite actual value whose floor fits an
  \<^verbatim>\<open>int\<close>, and changes no other control. The floor is the truncation toward zero
  exactly when the value is not negative or is an integer.
\<close>

theorem mode_callback_writes_floor:
  assumes "- 2147483648 \<le> \<lfloor>a\<rfloor>" and "\<lfloor>a\<rfloor> \<le> 2147483647"
  shows "mode_callback (Finite a) (Some c) = Some (c\<lparr>mode := \<lfloor>a\<rfloor>\<rparr>) \<and>
         (\<lfloor>a\<rfloor> = trunc_toward_zero a \<longleftrightarrow> 0 \<le> a \<or> a \<in> \<int>)"
  using assms
  by (simp add: mode_callback_def static_cast_int_def floorf_def trunc_toward_zero_floor
      floor_eq_trunc_toward_zero)

theorem mode_callback_writes_floor_witness:
  "- 2147483648 \<le> \<lfloor>7 / 2 :: real\<rfloor> \<and> \<lfloor>7 / 2 :: real\<rfloor> \<le> 2147483647 \<and>
   mode_callback (Finite (7 / 2))
       (Some \<lparr>mode = 0, drive = Finite 1, threshold = Finite 1, mix = Finite 1\<rparr>)
     = Some \<lparr>mode = 3, drive = Finite 1, threshold = Finite 1, mix = Finite 1\<rparr> \<and>
   \<lfloor>7 / 2 :: real\<rfloor> = trunc_toward_zero (7 / 2)"
  using mode_callback_writes_floor
    [of "7 / 2" "\<lparr>mode = 0, drive = Finite 1, threshold = Finite 1, mix = Finite 1\<rparr>"]
  by simp

end
